theory Spec2Isabelle
  imports Complex_Main
begin

section \<open>Evaluation passes of engine.py\<close>

text \<open>
  A shallow embedding of the validation and test passes of \<^verbatim>\<open>engine.py\<close>:
  \<^verbatim>\<open>val_one_epoch\<close>, \<^verbatim>\<open>test_one_epoch\<close> and
      \<^verbatim>\<open>test_all_images\<close>.
  The model, the loss function, the two surface-distance functions of medpy and the
  image writer are collaborators of the passes; what they return on an item is part of the
  input of the embedding. Library calls (NumPy, scikit-learn, the csv module) are
  embedded by the behaviour their documentation states.
\<close>

subsection \<open>Failures, floating-point values, arrays\<close>

text \<open>Every exception a pass can raise is a value; \<open>Inl\<close> of a sum is the
    raise.\<close>

datatype py_error =
  IndexError | ValueError | AttributeError | ZeroDivisionError | IsADirectoryError
  | Raised string

definition bind_err :: "'e + 'a \<Rightarrow> ('a \<Rightarrow> 'e + 'b) \<Rightarrow> 'e + 'b"
    where
  "bind_err r f = (case r of Inl e \<Rightarrow> Inl e | Inr v \<Rightarrow> f v)"

text \<open>
  A floating-point value is a number or not-a-number. Finite values are idealised as
  reals (rounding and the infinities are left out); not-a-number is kept, because the
  passes produce and compare it.
\<close>

datatype npfloat = Fin real | NaN

text \<open>\<^verbatim>\<open>a >= b\<close> on floating-point values: false as soon as one
    side is not-a-number.\<close>

fun np_ge :: "npfloat \<Rightarrow> npfloat \<Rightarrow> bool" where
  "np_ge (Fin a) (Fin b) = (b \<le> a)"
| "np_ge _ _ = False"

text \<open>An array is its shape and its elements in row-major order.\<close>

record 'a ndarray =
  shape :: "nat list"
  flat :: "'a list"

text \<open>
  \<^verbatim>\<open>t.squeeze(1)\<close> of torch: dimension 1 is removed when its extent is 1, the
  tensor is returned as it is otherwise, and a tensor with fewer than two dimensions
  raises IndexError. The elements are never touched.
\<close>

definition squeeze1 :: "'a ndarray \<Rightarrow> py_error + 'a ndarray" where
  "squeeze1 a =
     (if length (shape a) < 2 then Inl IndexError
      else if shape a ! 1 = 1 then Inr (a\<lparr>shape := hd (shape a) # drop 2 (shape a)\<rparr>)
      else Inr a)"

text \<open>
  A model returns one array, or a tuple of arrays (\<^verbatim>\<open>type(out) is tuple\<close>).
\<close>

datatype model_out = Single "npfloat ndarray" | Tuple "npfloat ndarray list"

subsection \<open>Binarization\<close>

text \<open>\<^verbatim>\<open>np.where(values >= threshold, 1, 0)\<close>, on the elements and
    on an array.\<close>

definition where_ge :: "npfloat list \<Rightarrow> npfloat \<Rightarrow> int list" where
  "where_ge values threshold = map (\<lambda>v. if np_ge v threshold then 1 else 0) values"

definition np_where_ge :: "npfloat ndarray \<Rightarrow> npfloat \<Rightarrow> int ndarray" where
  "np_where_ge a threshold = \<lparr>shape = shape a, flat = where_ge (flat a) threshold\<rparr>"

subsection \<open>The confusion matrix of scikit-learn\<close>

text \<open>
  \<^verbatim>\<open>confusion_matrix(y_true, y_pred, labels=...)\<close>: entry \<open>(i,
      j)\<close> counts the positions
  whose true label is the \<open>i\<close>-th label and whose predicted label is the
      \<open>j\<close>-th one.
  Sequences of different lengths raise ValueError.
  Without \<^verbatim>\<open>labels\<close> the labels are the values that occur in either sequence,
  sorted, so the table has one row and one column per value that occurs. With
  \<^verbatim>\<open>labels\<close> the table has one row and one column per given label: an empty
  label list raises ValueError, an empty \<^verbatim>\<open>y_true\<close> gives the table of zeros,
  and a non-empty \<^verbatim>\<open>y_true\<close> that holds none of the labels raises ValueError.
\<close>

type_synonym matrix = "nat list list"

definition count_pairs :: "int \<Rightarrow> int \<Rightarrow> int list \<Rightarrow> int list
    \<Rightarrow> nat" where
  "count_pairs a b y_true y_pred =
     length (filter (\<lambda>(t, p). t = a \<and> p = b) (zip y_true y_pred))"

definition table :: "int list \<Rightarrow> int list \<Rightarrow> int list \<Rightarrow>
    matrix" where
  "table labels y_true y_pred =
     map (\<lambda>a. map (\<lambda>b. count_pairs a b y_true y_pred) labels) labels"

definition unique_labels :: "int list \<Rightarrow> int list \<Rightarrow> int list" where
  "unique_labels y_true y_pred = sort (remdups (y_true @ y_pred))"

definition confusion_matrix :: "int list \<Rightarrow> int list \<Rightarrow> py_error + matrix"
    where
  "confusion_matrix y_true y_pred =
     (if length y_true \<noteq> length y_pred then Inl ValueError
      else Inr (table (unique_labels y_true y_pred) y_true y_pred))"

definition confusion_matrix_labels ::
  "int list \<Rightarrow> int list \<Rightarrow> int list \<Rightarrow> py_error + matrix" where
  "confusion_matrix_labels y_true y_pred labels =
     (if length y_true \<noteq> length y_pred then Inl ValueError
      else if labels = [] then Inl ValueError
      else if y_true = [] then Inr (table labels [] [])
      else if \<not> list_ex (\<lambda>t. t \<in> set labels) y_true then Inl ValueError
      else Inr (table labels y_true y_pred))"

text \<open>\<^verbatim>\<open>confusion[i, j]\<close>,
    \<^verbatim>\<open>np.sum(confusion)\<close>, \<^verbatim>\<open>confusion.size\<close>,
    \<^verbatim>\<open>confusion.ravel()\<close>.\<close>

definition cell :: "matrix \<Rightarrow> nat \<Rightarrow> nat \<Rightarrow> py_error + nat" where
  "cell m i j =
     (if i < length m \<and> j < length (m ! i) then Inr (m ! i ! j) else Inl IndexError)"

definition np_sum :: "matrix \<Rightarrow> nat" where
  "np_sum m = sum_list (concat m)"

definition msize :: "matrix \<Rightarrow> nat" where
  "msize m = length (concat m)"

definition ravel :: "matrix \<Rightarrow> nat list" where
  "ravel m = concat m"

subsection \<open>The derived statistics\<close>

record stats =
  accuracy :: real
  sensitivity :: real
  specificity :: real
  f1_or_dsc :: real
  miou :: real

text \<open>
  The division of two counts. A zero divisor is the failure the guards of the passes
  exist to avoid (ZeroDivisionError on Python floats; a warning and a non-finite value on
  NumPy integers), so the embedding makes it a failure in both.
\<close>

definition truediv :: "nat \<Rightarrow> nat \<Rightarrow> py_error + real" where
  "truediv a b = (if b = 0 then Inl ZeroDivisionError else Inr (real a / real b))"

text \<open>\<^verbatim>\<open>a / b if b != 0 else 0\<close>\<close>

definition ratio_or_zero :: "nat \<Rightarrow> nat \<Rightarrow> py_error + real" where
  "ratio_or_zero a b = (if b \<noteq> 0 then truediv a b else Inr 0)"

text \<open>
  Lines 87 to 93 (and 157 to 163): the four cells are read by index, the accuracy
  divides by the sum of the whole table.
\<close>

definition four_cells :: "matrix \<Rightarrow> py_error + (nat \<times> nat \<times> nat
    \<times> nat)" where
  "four_cells confusion =
     bind_err (cell confusion 0 0) (\<lambda>TN.
     bind_err (cell confusion 0 1) (\<lambda>FP.
     bind_err (cell confusion 1 0) (\<lambda>FN.
     bind_err (cell confusion 1 1) (\<lambda>TP. Inr (TN, FP, FN, TP)))))"

definition statistics :: "matrix \<Rightarrow> nat \<times> nat \<times> nat \<times> nat
    \<Rightarrow> py_error + stats" where
  "statistics confusion c =
     (case c of (TN, FP, FN, TP) \<Rightarrow>
        bind_err (ratio_or_zero (TN + TP) (np_sum confusion)) (\<lambda>acc.
        bind_err (ratio_or_zero TP (TP + FN)) (\<lambda>sens.
        bind_err (ratio_or_zero TN (TN + FP)) (\<lambda>spec.
        bind_err (ratio_or_zero (2 * TP) (2 * TP + FP + FN)) (\<lambda>f1.
        bind_err (ratio_or_zero TP (TP + FP + FN)) (\<lambda>iou.
          Inr \<lparr>accuracy = acc, sensitivity = sens, specificity = spec,
               f1_or_dsc = f1, miou = iou\<rparr>))))))"

text \<open>
  Line 203: \<^verbatim>\<open>confusion.ravel() if confusion.size == 4 else (0, 0, 0,
      0)\<close>. The second
  component tells whether the fallback was taken.
\<close>

definition ravel_or_zeros :: "matrix \<Rightarrow> (nat \<times> nat \<times> nat \<times> nat)
    \<times> bool" where
  "ravel_or_zeros confusion =
     (if msize confusion = 4
      then (case ravel confusion of
              [TN, FP, FN, TP] \<Rightarrow> ((TN, FP, FN, TP), False)
            | _ \<Rightarrow> ((0, 0, 0, 0), True))
      else ((0, 0, 0, 0), True))"

subsection \<open>Loader items, configuration, output\<close>

text \<open>
  One item of the loader (\<^verbatim>\<open>img, msk, file_name = data\<close>) with what the two
  collaborators return on it: \<^verbatim>\<open>out = model(img)\<close> and
  \<^verbatim>\<open>loss.item()\<close> of \<^verbatim>\<open>criterion(out, msk)\<close>.
\<close>

record item =
  msk :: "npfloat ndarray"
  out :: model_out
  loss :: npfloat
  file_name :: "string list"

record config =
  threshold :: npfloat
  val_interval :: int

text \<open>
  A log line is kept as the values it is formatted from; the events of a pass are
  what it prints and what it hands to the logger, in order.
\<close>

datatype log_info =
  Val_metrics int npfloat stats matrix
  | Val_loss int npfloat
  | Test_name string
  | Test_metrics npfloat stats matrix npfloat npfloat
  | Saved_to string

datatype event =
  Print_matrix matrix
  | Print log_info
  | Logger_info log_info
  | Print_hd_asd_error string

text \<open>\<^verbatim>\<open>if type(out) is tuple: out = out[0]\<close>\<close>

definition unwrap :: "model_out \<Rightarrow> py_error + npfloat ndarray" where
  "unwrap output =
     (case output of
        Tuple xs \<Rightarrow> (case xs of [] \<Rightarrow> Inl IndexError | x # _ \<Rightarrow>
            Inr x)
      | Single a \<Rightarrow> Inr a)"

text \<open>
  \<^verbatim>\<open>out.squeeze(1)\<close> on the output as the model returned it: a tuple has
      no such
  method.
\<close>

definition squeeze1_out :: "model_out \<Rightarrow> py_error + npfloat ndarray" where
  "squeeze1_out output = (case output of Single a \<Rightarrow> squeeze1 a | Tuple xs
      \<Rightarrow> Inl AttributeError)"

text \<open>
  \<^verbatim>\<open>np.array(arrays).reshape(-1)\<close>: arrays of one shape are stacked, and
      the stack read
  in row-major order is the arrays' elements one array after the other; arrays of
  different shapes raise ValueError (NumPy 1.24 and later).
\<close>

definition pool :: "'a ndarray list \<Rightarrow> py_error + 'a list" where
  "pool arrays =
     (if list_all (\<lambda>a. shape a = shape (hd arrays)) arrays
      then Inr (concat (map flat arrays)) else Inl ValueError)"

text \<open>
  \<^verbatim>\<open>np.mean\<close>: not-a-number on the empty list and as soon as one value is;
  \<^verbatim>\<open>np.nanmean\<close>: the mean of the values that are numbers.
\<close>

fun fin_val :: "npfloat \<Rightarrow> real" where
  "fin_val (Fin r) = r"
| "fin_val NaN = 0"

definition np_mean :: "npfloat list \<Rightarrow> npfloat" where
  "np_mean xs =
     (if xs = [] \<or> NaN \<in> set xs then NaN
      else Fin (sum_list (map fin_val xs) / real (length xs)))"

definition np_nanmean :: "npfloat list \<Rightarrow> npfloat" where
  "np_nanmean xs = np_mean (filter (\<lambda>x. x \<noteq> NaN) xs)"

text \<open>A \<^verbatim>\<open>for\<close> loop whose body may raise; the second form is
    \<^verbatim>\<open>enumerate\<close>.\<close>

fun for_each :: "('s \<Rightarrow> 'd \<Rightarrow> py_error + 's) \<Rightarrow> 's
    \<Rightarrow> 'd list \<Rightarrow> py_error + 's" where
  "for_each body s [] = Inr s"
| "for_each body s (d # ds) = bind_err (body s d) (\<lambda>s'. for_each body s' ds)"

fun for_enumerate ::
  "(nat \<Rightarrow> 's \<Rightarrow> 'd \<Rightarrow> py_error + 's) \<Rightarrow> nat
      \<Rightarrow> 's \<Rightarrow> 'd list \<Rightarrow> py_error + 's" where
  "for_enumerate body i s [] = Inr s"
| "for_enumerate body i s (d # ds) =
     bind_err (body i s d) (\<lambda>s'. for_enumerate body (Suc i) s' ds)"

subsection \<open>val_one_epoch\<close>

record val_state =
  preds :: "npfloat ndarray list"
  gts :: "npfloat ndarray list"
  loss_list :: "npfloat list"

text \<open>Lines 67 to 76, the body of the loop.\<close>

definition val_body :: "val_state \<Rightarrow> item \<Rightarrow> py_error + val_state" where
  "val_body s d =
     bind_err (squeeze1 (msk d)) (\<lambda>g.
     bind_err (unwrap (out d)) (\<lambda>y.
     bind_err (squeeze1 y) (\<lambda>p.
       Inr \<lparr>preds = preds s @ [p], gts = gts s @ [g],
            loss_list = loss_list s @ [loss d]\<rparr>)))"

text \<open>
  Lines 79 to 87 (and 150 to 157): pooling, binarization, confusion matrix and its
  four cells.
\<close>

definition pooled_confusion ::
  "config \<Rightarrow> npfloat ndarray list \<Rightarrow> npfloat ndarray list \<Rightarrow>
      py_error + matrix" where
  "pooled_confusion cfg ps gs =
     bind_err (pool ps) (\<lambda>p.
     bind_err (pool gs) (\<lambda>g.
       let y_pre = where_ge p (threshold cfg);
           y_true = where_ge g (Fin (1 / 2))
       in confusion_matrix y_true y_pre))"

text \<open>
  The pass: the loop, then the branch on \<^verbatim>\<open>epoch % config.val_interval ==
      0\<close>, then
  \<^verbatim>\<open>return np.mean(loss_list)\<close>. The result is the returned value and the
      events.
\<close>

definition val_one_epoch :: "item list \<Rightarrow> int \<Rightarrow> config \<Rightarrow>
    py_error + (npfloat \<times> event list)" where
  "val_one_epoch test_loader epoch cfg =
     bind_err (for_each val_body \<lparr>preds = [], gts = [], loss_list = []\<rparr>
         test_loader) (\<lambda>s.
       if val_interval cfg = 0 then Inl ZeroDivisionError
       else if epoch mod val_interval cfg = 0 then
         bind_err (pooled_confusion cfg (preds s) (gts s)) (\<lambda>confusion.
         bind_err (four_cells confusion) (\<lambda>c.
         bind_err (statistics confusion c) (\<lambda>st.
           let log_info = Val_metrics epoch (np_mean (loss_list s)) st confusion
           in Inr (np_mean (loss_list s),
                   [Print_matrix confusion, Print log_info, Logger_info log_info]))))
       else
         (let log_info = Val_loss epoch (np_mean (loss_list s))
          in Inr (np_mean (loss_list s), [Print log_info, Logger_info log_info])))"

subsection \<open>test_one_epoch\<close>

record test_state = val_state +
  hd_list :: "npfloat list"
  asd_list :: "npfloat list"
  printed :: "event list"

text \<open>
  Lines 139 to 144. The two distance functions of medpy are parameters; \<open>Inl\<close> is the
  message of the exception one raises.
\<close>

type_synonym distance = "int ndarray \<Rightarrow> int ndarray \<Rightarrow> string + npfloat"

definition try_hd_asd ::
  "distance \<Rightarrow> distance \<Rightarrow> int ndarray \<Rightarrow> int ndarray
      \<Rightarrow> npfloat \<times> npfloat \<times> event list" where
  "try_hd_asd hd_medpy asd_medpy bin_pred bin_gt =
     (case hd_medpy bin_pred bin_gt of
        Inl e \<Rightarrow> (NaN, NaN, [Print_hd_asd_error e])
      | Inr hausdorff_dist \<Rightarrow>
          (case asd_medpy bin_pred bin_gt of
             Inl e \<Rightarrow> (NaN, NaN, [Print_hd_asd_error e])
           | Inr avg_surface_dist \<Rightarrow> (hausdorff_dist, avg_surface_dist, [])))"

text \<open>
  Lines 123 to 148, the body of the loop. The image writer is a parameter: it is given
  the index, the mask and the prediction, and returns the exception it raises, if any.
\<close>

type_synonym writer = "nat \<Rightarrow> npfloat ndarray \<Rightarrow> npfloat ndarray
    \<Rightarrow> py_error option"

definition test_body ::
  "distance \<Rightarrow> distance \<Rightarrow> writer \<Rightarrow> config \<Rightarrow> nat
      \<Rightarrow> test_state \<Rightarrow> item
     \<Rightarrow> py_error + test_state" where
  "test_body hd_medpy asd_medpy save_imgs cfg i s d =
     bind_err (squeeze1 (msk d)) (\<lambda>m.
     bind_err (unwrap (out d)) (\<lambda>y.
     bind_err (squeeze1 y) (\<lambda>p.
       let bin_pred = np_where_ge p (threshold cfg);
           bin_gt = np_where_ge m (Fin (1 / 2))
       in (case try_hd_asd hd_medpy asd_medpy bin_pred bin_gt of
             (hausdorff_dist, avg_surface_dist, diag) \<Rightarrow>
               (case save_imgs i m p of
                  Some e \<Rightarrow> Inl e
                | None \<Rightarrow>
                    Inr \<lparr>preds = preds s @ [p], gts = gts s @ [m],
                         loss_list = loss_list s @ [loss d],
                         hd_list = hd_list s @ [hausdorff_dist],
                         asd_list = asd_list s @ [avg_surface_dist],
                         printed = printed s @ diag\<rparr>)))))"

definition test_loop ::
  "distance \<Rightarrow> distance \<Rightarrow> writer \<Rightarrow> config \<Rightarrow> item
      list \<Rightarrow> py_error + test_state" where
  "test_loop hd_medpy asd_medpy save_imgs cfg test_loader =
     for_enumerate (test_body hd_medpy asd_medpy save_imgs cfg) 0
       \<lparr>preds = [], gts = [], loss_list = [], hd_list = [], asd_list = [], printed =
           []\<rparr>
       test_loader"

definition test_one_epoch ::
  "distance \<Rightarrow> distance \<Rightarrow> writer \<Rightarrow> item list \<Rightarrow>
      config \<Rightarrow> string option
     \<Rightarrow> py_error + (npfloat \<times> event list)" where
  "test_one_epoch hd_medpy asd_medpy save_imgs test_loader cfg test_data_name =
     bind_err (test_loop hd_medpy asd_medpy save_imgs cfg test_loader) (\<lambda>s.
     bind_err (pooled_confusion cfg (preds s) (gts s)) (\<lambda>confusion.
     bind_err (four_cells confusion) (\<lambda>c.
     bind_err (statistics confusion c) (\<lambda>st.
       let avg_hd = (if length (hd_list s) > 0 then np_nanmean (hd_list s) else NaN);
           avg_asd = (if length (asd_list s) > 0 then np_nanmean (asd_list s) else NaN);
           name_lines = (case test_data_name of
                           None \<Rightarrow> []
                         | Some n \<Rightarrow> [Print (Test_name n), Logger_info (Test_name n)]);
           log_info = Test_metrics (np_mean (loss_list s)) st confusion avg_hd avg_asd
       in Inr (np_mean (loss_list s),
               printed s @ name_lines @ [Print log_info, Logger_info log_info])))))"

subsection \<open>test_all_images\<close>

text \<open>
  A field of a CSV row is the string or the number it is written from; a path of the
  file system holds a file (its rows), a directory, or nothing.
\<close>

datatype csv_field = Str string | Num npfloat

type_synonym csv_row = "csv_field list"

datatype node = File "csv_row list" | Dir

type_synonym filesystem = "string \<Rightarrow> node option"

definition header :: csv_row where
  "header = [Str ''File Name'', Str ''Loss'', Str ''mIoU'', Str ''F1/DSC'',
             Str ''Accuracy'', Str ''Specificity'', Str ''Sensitivity'']"

text \<open>\<^verbatim>\<open>file_name[0]\<close>\<close>

definition first_name :: "string list \<Rightarrow> py_error + string" where
  "first_name names = (case names of [] \<Rightarrow> Inl IndexError | n # _ \<Rightarrow> Inr n)"

text \<open>Lines 187 to 211, the body of the loop.\<close>

definition all_body ::
  "config \<Rightarrow> csv_row list \<times> npfloat list \<Rightarrow> item \<Rightarrow>
      py_error + (csv_row list \<times> npfloat list)" where
  "all_body cfg s d =
     (case s of (results, losses) \<Rightarrow>
        bind_err (squeeze1 (msk d)) (\<lambda>m.
        bind_err (squeeze1_out (out d)) (\<lambda>y.
          let bin_pred = np_where_ge y (threshold cfg);
              bin_gt = np_where_ge m (Fin (1 / 2));
              y_pre = flat bin_pred;
              y_true = flat bin_gt
          in bind_err (confusion_matrix_labels y_true y_pre [0, 1]) (\<lambda>confusion.
             bind_err (statistics confusion (fst (ravel_or_zeros confusion))) (\<lambda>st.
             bind_err (first_name (file_name d)) (\<lambda>n.
               Inr (results @ [[Str n, Num (loss d), Num (Fin (miou st)),
                                Num (Fin (f1_or_dsc st)), Num (Fin (accuracy st)),
                                Num (Fin (specificity st)), Num (Fin (sensitivity st))]],
                    losses @ [loss d])))))))"

text \<open>\<^verbatim>\<open>os.path.join(csv_folder, 'test_results.csv')\<close>\<close>

definition path_join :: "string \<Rightarrow> string \<Rightarrow> string" where
  "path_join a b =
     (if a = [] then b else if last a = CHR ''/'' then a @ b else a @ ''/'' @ b)"

text \<open>
  Lines 214 to 220: one existence check, then the file opened for appending (created
  when absent; a directory cannot be opened), the header when the check said the file
  was not there, then the rows.
\<close>

definition isfile :: "filesystem \<Rightarrow> string \<Rightarrow> bool" where
  "isfile fs path = (case fs path of Some (File rows) \<Rightarrow> True | _ \<Rightarrow> False)"

definition write_csv :: "filesystem \<Rightarrow> string \<Rightarrow> csv_row list
    \<Rightarrow> py_error + filesystem" where
  "write_csv fs csv_path results =
     (let file_exists = isfile fs csv_path
      in case fs csv_path of
           Some Dir \<Rightarrow> Inl IsADirectoryError
         | Some (File rows) \<Rightarrow>
             Inr (fs(csv_path \<mapsto> File (rows @ (if \<not> file_exists then [header] else
                 []) @ results)))
         | None \<Rightarrow>
             Inr (fs(csv_path \<mapsto> File ((if \<not> file_exists then [header] else []) @
                 results))))"

definition test_all_images ::
  "filesystem \<Rightarrow> item list \<Rightarrow> config \<Rightarrow> string
     \<Rightarrow> py_error + (npfloat \<times> filesystem \<times> event list)" where
  "test_all_images fs test_loader cfg csv_folder =
     bind_err (for_each (all_body cfg) ([], []) test_loader) (\<lambda>s.
       case s of (results, losses) \<Rightarrow>
         let csv_path = path_join csv_folder ''test_results.csv''
         in bind_err (write_csv fs csv_path results) (\<lambda>fs'.
              Inr (np_mean losses, fs',
                   [Print (Saved_to csv_path), Logger_info (Saved_to csv_path)])))"

section \<open>Properties\<close>

subsection \<open>Basic facts\<close>

lemma bind_err_Inl [simp]: "bind_err (Inl e) f = Inl e"
  by (simp add: bind_err_def)

lemma bind_err_Inr [simp]: "bind_err (Inr v) f = f v"
  by (simp add: bind_err_def)

lemma bind_err_eq_Inr: "bind_err r f = Inr y \<longleftrightarrow> (\<exists>v. r = Inr v \<and>
    f v = Inr y)"
  by (cases r) auto

lemma four_cells_2x2: "four_cells [[TN, FP], [FN, TP]] = Inr (TN, FP, FN, TP)"
  by (simp add: four_cells_def cell_def)

lemma ravel_or_zeros_2x2: "ravel_or_zeros [[TN, FP], [FN, TP]] = ((TN, FP, FN, TP), False)"
  by (simp add: ravel_or_zeros_def msize_def ravel_def)

lemma statistics_2x2:
  "statistics [[TN, FP], [FN, TP]] (TN, FP, FN, TP) =
     Inr \<lparr>accuracy = (if TN + FP + FN + TP = 0 then 0
                       else real (TN + TP) / real (TN + FP + FN + TP)),
          sensitivity = (if TP + FN = 0 then 0 else real TP / real (TP + FN)),
          specificity = (if TN + FP = 0 then 0 else real TN / real (TN + FP)),
          f1_or_dsc = (if 2 * TP + FP + FN = 0 then 0
                        else real (2 * TP) / real (2 * TP + FP + FN)),
          miou = (if TP + FP + FN = 0 then 0 else real TP / real (TP + FP + FN))\<rparr>"
  by (simp add: statistics_def ratio_or_zero_def truediv_def np_sum_def)

subsection \<open>The derived statistics\<close>

text \<open>
  C1. For every confusion matrix of counts TN, FP, FN, TP, read by index (validation and
  test pass) or unravelled (per-sample pass), the five statistics are computed without a
  failure and equal their defining ratios, each one 0 when its denominator is 0; for the
  matrix of zeros all five are 0.
\<close>

theorem derived_statistics_ratios:
  "four_cells [[TN, FP], [FN, TP]] = Inr (TN, FP, FN, TP)
   \<and> fst (ravel_or_zeros [[TN, FP], [FN, TP]]) = (TN, FP, FN, TP)
   \<and> statistics [[TN, FP], [FN, TP]] (TN, FP, FN, TP) =
       Inr \<lparr>accuracy = (if TN + FP + FN + TP = 0 then 0
                         else real (TN + TP) / real (TN + FP + FN + TP)),
            sensitivity = (if TP + FN = 0 then 0 else real TP / real (TP + FN)),
            specificity = (if TN + FP = 0 then 0 else real TN / real (TN + FP)),
            f1_or_dsc = (if 2 * TP + FP + FN = 0 then 0
                          else real (2 * TP) / real (2 * TP + FP + FN)),
            miou = (if TP + FP + FN = 0 then 0 else real TP / real (TP + FP + FN))\<rparr>
   \<and> statistics [[0, 0], [0, 0]] (0, 0, 0, 0) =
       Inr \<lparr>accuracy = 0, sensitivity = 0, specificity = 0, f1_or_dsc = 0, miou = 0\<rparr>"
  using statistics_2x2 [of 0 0 0 0]
  by (simp add: four_cells_2x2 ravel_or_zeros_2x2 statistics_2x2)

theorem derived_statistics_ratios_witness:
  "statistics [[1, 1], [1, 1]] (1, 1, 1, 1) =
     Inr \<lparr>accuracy = 1 / 2, sensitivity = 1 / 2, specificity = 1 / 2,
          f1_or_dsc = 1 / 2, miou = 1 / 3\<rparr>"
  using derived_statistics_ratios [of 1 1 1 1] by simp

subsection \<open>Inputs of a single class\<close>

text \<open>
  C2. The claim is that the four cells of the confusion matrix are obtained without a
  failure in every pass. In the validation and the test pass they are not: when mask and
  prediction hold one class only, the table has one cell, and reading the cells raises
  IndexError. The per-sample pass, which names the labels, returns the four cells on the
  same input.
\<close>

theorem single_class_four_cells_fail:
  "bind_err (confusion_matrix [0, 0] [0, 0]) four_cells = Inl IndexError
   \<and> confusion_matrix [0, 0] [0, 0] = Inr [[2]]
   \<and> confusion_matrix_labels [0, 0] [0, 0] [0, 1] = Inr [[2, 0], [0, 0]]
   \<and> val_one_epoch
       [\<lparr>msk = \<lparr>shape = [1, 1, 1, 2], flat = [Fin 0, Fin 0]\<rparr>,
         out = Single \<lparr>shape = [1, 1, 1, 2], flat = [Fin (1 / 10), Fin (1 / 5)]\<rparr>,
         loss = Fin (3 / 10), file_name = [''a.tif'']\<rparr>]
       0 \<lparr>threshold = Fin (1 / 2), val_interval = 1\<rparr> = Inl IndexError
   \<and> test_one_epoch (\<lambda>a b. Inr (Fin 0)) (\<lambda>a b. Inr (Fin 0)) (\<lambda>i m
       p. None)
       [\<lparr>msk = \<lparr>shape = [1, 1, 1, 2], flat = [Fin 0, Fin 0]\<rparr>,
         out = Single \<lparr>shape = [1, 1, 1, 2], flat = [Fin (1 / 10), Fin (1 / 5)]\<rparr>,
         loss = Fin (3 / 10), file_name = [''a.tif'']\<rparr>]
       \<lparr>threshold = Fin (1 / 2), val_interval = 1\<rparr> None = Inl IndexError"
  by (simp add: val_one_epoch_def val_body_def test_one_epoch_def test_loop_def test_body_def
      try_hd_asd_def squeeze1_def unwrap_def pooled_confusion_def pool_def where_ge_def
      np_where_ge_def confusion_matrix_def confusion_matrix_labels_def unique_labels_def
      table_def count_pairs_def four_cells_def cell_def)

subsection \<open>Tuple-valued model outputs\<close>

text \<open>
  C5. The claim is that every pass that computes metrics takes the first element of a
  tuple-valued model output. The validation pass does; the per-sample pass calls
  \<^verbatim>\<open>squeeze\<close> on the tuple itself and raises AttributeError.
\<close>

theorem tuple_output_not_unwrapped:
  "test_all_images Map.empty
       [\<lparr>msk = \<lparr>shape = [1, 1, 1, 2], flat = [Fin 0, Fin 1]\<rparr>,
         out = Tuple [\<lparr>shape = [1, 1, 1, 2], flat = [Fin (1 / 10), Fin (9 / 10)]\<rparr>,
                      \<lparr>shape = [1, 1, 1, 2], flat = [Fin (1 / 5), Fin (4 / 5)]\<rparr>],
         loss = Fin (3 / 10), file_name = [''a.tif'']\<rparr>]
       \<lparr>threshold = Fin (1 / 2), val_interval = 1\<rparr> ''results'' = Inl AttributeError
   \<and> val_one_epoch
       [\<lparr>msk = \<lparr>shape = [1, 1, 1, 2], flat = [Fin 0, Fin 1]\<rparr>,
         out = Tuple [\<lparr>shape = [1, 1, 1, 2], flat = [Fin (1 / 10), Fin (9 / 10)]\<rparr>,
                      \<lparr>shape = [1, 1, 1, 2], flat = [Fin (1 / 5), Fin (4 / 5)]\<rparr>],
         loss = Fin (3 / 10), file_name = [''a.tif'']\<rparr>]
       0 \<lparr>threshold = Fin (1 / 2), val_interval = 1\<rparr> =
     Inr (Fin (3 / 10),
          [Print_matrix [[1, 0], [0, 1]],
           Print (Val_metrics 0 (Fin (3 / 10))
                    \<lparr>accuracy = 1, sensitivity = 1, specificity = 1, f1_or_dsc = 1, miou
                        = 1\<rparr>
                    [[1, 0], [0, 1]]),
           Logger_info (Val_metrics 0 (Fin (3 / 10))
                    \<lparr>accuracy = 1, sensitivity = 1, specificity = 1, f1_or_dsc = 1, miou
                        = 1\<rparr>
                    [[1, 0], [0, 1]])])"
  by (simp add: test_all_images_def all_body_def squeeze1_out_def val_one_epoch_def
      val_body_def squeeze1_def unwrap_def pooled_confusion_def pool_def where_ge_def
      confusion_matrix_def unique_labels_def table_def count_pairs_def four_cells_def cell_def
      statistics_def ratio_or_zero_def truediv_def np_sum_def np_mean_def Let_def)

subsection \<open>The value returned by the validation pass\<close>

text \<open>
  C10. The claim is that the validation pass returns the mean of the losses whether or
  not the epoch computes metrics. On an epoch without metrics it does; on an epoch with
  metrics and items of a single class the metrics branch raises IndexError and nothing is
  returned.
\<close>

theorem metrics_branch_aborts_return:
  "val_one_epoch
       [\<lparr>msk = \<lparr>shape = [1, 1, 1, 2], flat = [Fin 0, Fin 0]\<rparr>,
         out = Single \<lparr>shape = [1, 1, 1, 2], flat = [Fin (1 / 10), Fin (1 / 5)]\<rparr>,
         loss = Fin (3 / 10), file_name = [''a.tif'']\<rparr>]
       1 \<lparr>threshold = Fin (1 / 2), val_interval = 2\<rparr> =
     Inr (Fin (3 / 10),
          [Print (Val_loss 1 (Fin (3 / 10))), Logger_info (Val_loss 1 (Fin (3 / 10)))])
   \<and> val_one_epoch
       [\<lparr>msk = \<lparr>shape = [1, 1, 1, 2], flat = [Fin 0, Fin 0]\<rparr>,
         out = Single \<lparr>shape = [1, 1, 1, 2], flat = [Fin (1 / 10), Fin (1 / 5)]\<rparr>,
         loss = Fin (3 / 10), file_name = [''a.tif'']\<rparr>]
       2 \<lparr>threshold = Fin (1 / 2), val_interval = 2\<rparr> = Inl IndexError"
  by (simp add: val_one_epoch_def val_body_def squeeze1_def unwrap_def pooled_confusion_def
      pool_def where_ge_def confusion_matrix_def unique_labels_def table_def count_pairs_def
      four_cells_def cell_def np_mean_def Let_def)

subsection \<open>Counting\<close>

lemma table_01:
  "table [0, 1] yt yp =
     [[count_pairs 0 0 yt yp, count_pairs 0 1 yt yp],
      [count_pairs 1 0 yt yp, count_pairs 1 1 yt yp]]"
  by (simp add: table_def)

lemma confusion_matrix_labels_01:
  "confusion_matrix_labels yt yp [0, 1] = Inr m \<Longrightarrow> m = table [0, 1] yt yp"
  by (auto simp: confusion_matrix_labels_def split: if_splits)

lemma confusion_matrix_labels_binary:
  assumes "length yt = length yp" "set yt \<subseteq> {0, 1}"
  shows "confusion_matrix_labels yt yp [0, 1] = Inr (table [0, 1] yt yp)"
proof (cases yt)
  case Nil
  with assms show ?thesis by (simp add: confusion_matrix_labels_def)
next
  case (Cons t ts)
  with assms have "t = 0 \<or> t = 1" by auto
  with Cons assms show ?thesis by (auto simp: confusion_matrix_labels_def)
qed

lemma count_pairs_total:
  "length yt = length yp \<Longrightarrow> set yt \<subseteq> {0, 1} \<Longrightarrow> set yp
      \<subseteq> {0, 1} \<Longrightarrow>
     count_pairs 0 0 yt yp + count_pairs 0 1 yt yp + count_pairs 1 0 yt yp
       + count_pairs 1 1 yt yp = length yt"
  by (induction yt yp rule: list_induct2) (auto simp: count_pairs_def)

lemma sorted_distinct_binary:
  fixes xs :: "int list"
  assumes "sorted xs" "distinct xs" "set xs \<subseteq> {0, 1}"
  shows "xs = [] \<or> xs = [0] \<or> xs = [1] \<or> xs = [0, 1]"
proof (cases xs)
  case Nil
  then show ?thesis by simp
next
  case (Cons x ys)
  note c1 = Cons
  show ?thesis
  proof (cases ys)
    case Nil
    with c1 assms show ?thesis by auto
  next
    case (Cons y zs)
    with c1 assms have xy: "x = 0" "y = 1" by auto
    have "zs = []"
    proof (cases zs)
      case Nil then show ?thesis .
    next
      case (Cons z ws)
      with c1 \<open>ys = y # zs\<close> assms xy show ?thesis by auto
    qed
    with c1 Cons xy show ?thesis by simp
  qed
qed

lemma unique_labels_binary:
  assumes "set yt \<subseteq> {0, 1}" "set yp \<subseteq> {0, 1}"
  shows "unique_labels yt yp = [] \<or> unique_labels yt yp = [0]
         \<or> unique_labels yt yp = [1] \<or> unique_labels yt yp = [0, 1]"
proof -
  have "sorted (unique_labels yt yp)" "distinct (unique_labels yt yp)"
       "set (unique_labels yt yp) \<subseteq> {0, 1}"
    using assms by (auto simp: unique_labels_def)
  then show ?thesis by (rule sorted_distinct_binary)
qed

lemma four_cells_short: "length ls < 2 \<Longrightarrow> four_cells (table ls yt yp) = Inl
    IndexError"
  by (cases ls; cases "tl ls") (auto simp: four_cells_def cell_def table_def)

lemma np_sum_table_01:
  "np_sum (table [0, 1] yt yp) =
     count_pairs 0 0 yt yp + count_pairs 0 1 yt yp + count_pairs 1 0 yt yp
       + count_pairs 1 1 yt yp"
  by (simp add: table_01 np_sum_def)

lemma confusion_matrix_four_cells:
  assumes "set yt \<subseteq> {0, 1}" "set yp \<subseteq> {0, 1}"
    and "confusion_matrix yt yp = Inr m" "four_cells m = Inr c"
  shows "m = table [0, 1] yt yp"
proof -
  from assms(3) have m: "m = table (unique_labels yt yp) yt yp"
    by (auto simp: confusion_matrix_def split: if_splits)
  from unique_labels_binary [OF assms(1,2)] assms(4) m show ?thesis
    by (auto simp: four_cells_short)
qed

lemma confusion_matrix_length:
  "confusion_matrix yt yp = Inr m \<Longrightarrow> length yt = length yp"
  by (auto simp: confusion_matrix_def split: if_splits)

lemma where_ge_binary: "set (where_ge xs t) \<subseteq> {0, 1}"
  by (auto simp: where_ge_def)

lemma length_where_ge [simp]: "length (where_ge xs t) = length xs"
  by (simp add: where_ge_def)

subsection \<open>The fallback of the per-sample pass\<close>

text \<open>
  C9. Whenever the confusion matrix requested with the labels 0 and 1 is returned, for
  any pair of inputs, it has exactly 4 cells, so line 203 unravels it and the fallback
  (0, 0, 0, 0) is never taken.
\<close>

theorem fallback_unreachable:
  "confusion_matrix_labels y_true y_pred [0, 1] = Inr confusion \<Longrightarrow>
     msize confusion = 4
     \<and> snd (ravel_or_zeros confusion) = False
     \<and> fst (ravel_or_zeros confusion) =
         (count_pairs 0 0 y_true y_pred, count_pairs 0 1 y_true y_pred,
          count_pairs 1 0 y_true y_pred, count_pairs 1 1 y_true y_pred)"
  by (drule confusion_matrix_labels_01)
     (simp add: table_01 msize_def ravel_or_zeros_def ravel_def)

theorem fallback_unreachable_witness:
  "confusion_matrix_labels [0, 1] [1, 1] [0, 1] = Inr [[0, 1], [0, 1]]
   \<and> msize [[0, 1], [0, 1]] = 4
   \<and> ravel_or_zeros [[0, 1], [0, 1]] = ((0, 1, 0, 1), False)"
proof -
  have h: "confusion_matrix_labels [0, 1] [1, 1] [0, 1] = Inr [[0, 1], [0, 1]]"
    by (simp add: confusion_matrix_labels_def table_def count_pairs_def)
  from fallback_unreachable [OF h] h show ?thesis
    by (simp add: count_pairs_def prod_eq_iff)
qed

subsection \<open>The cells add up to the number of elements\<close>

text \<open>
  C8. For equal-length sequences of zeros and ones, the per-sample pass always obtains the
  four cells and they add up to the number of elements compared; in the validation and
  test pass the four cells, whenever they are obtained, add up to the number of elements
  compared. In both the sum of the whole table is that number too.
\<close>

theorem cells_sum_total:
  assumes "length y_true = length y_pred"
    and "set y_true \<subseteq> {0, 1}" and "set y_pred \<subseteq> {0, 1}"
  shows "(\<exists>confusion TN FP FN TP.
            confusion_matrix_labels y_true y_pred [0, 1] = Inr confusion
            \<and> ravel_or_zeros confusion = ((TN, FP, FN, TP), False)
            \<and> TN + FP + FN + TP = length y_true
            \<and> np_sum confusion = length y_true)
       \<and> (\<forall>confusion TN FP FN TP.
            confusion_matrix y_true y_pred = Inr confusion
            \<and> four_cells confusion = Inr (TN, FP, FN, TP)
            \<longrightarrow> TN + FP + FN + TP = length y_true \<and> np_sum confusion = length
                y_true)"
proof (intro conjI allI impI)
  show "\<exists>confusion TN FP FN TP.
          confusion_matrix_labels y_true y_pred [0, 1] = Inr confusion
          \<and> ravel_or_zeros confusion = ((TN, FP, FN, TP), False)
          \<and> TN + FP + FN + TP = length y_true
          \<and> np_sum confusion = length y_true"
    using confusion_matrix_labels_binary [OF assms(1,2)] count_pairs_total [OF assms]
    by (simp add: table_01 ravel_or_zeros_2x2 np_sum_def)
next
  fix confusion TN FP FN TP
  assume h: "confusion_matrix y_true y_pred = Inr confusion
             \<and> four_cells confusion = Inr (TN, FP, FN, TP)"
  then have m: "confusion = table [0, 1] y_true y_pred"
    using confusion_matrix_four_cells [OF assms(2,3)] by blast
  with h have c: "TN = count_pairs 0 0 y_true y_pred" "FP = count_pairs 0 1 y_true y_pred"
    "FN = count_pairs 1 0 y_true y_pred" "TP = count_pairs 1 1 y_true y_pred"
    by (simp_all add: table_01 four_cells_2x2)
  from c count_pairs_total [OF assms] show "TN + FP + FN + TP = length y_true" by simp
  from m count_pairs_total [OF assms] show "np_sum confusion = length y_true"
    by (simp add: np_sum_table_01)
qed

theorem cells_sum_total_witness:
  "confusion_matrix_labels [0, 0, 1, 1] [0, 1, 0, 1] [0, 1] = Inr [[1, 1], [1, 1]]
   \<and> confusion_matrix [0, 0, 1, 1] [0, 1, 0, 1] = Inr [[1, 1], [1, 1]]
   \<and> four_cells [[1, 1], [1, 1]] = Inr (1, 1, 1, 1)
   \<and> (1::nat) + 1 + 1 + 1 = length [0::int, 0, 1, 1]
   \<and> np_sum [[1, 1], [1, 1]] = length [0::int, 0, 1, 1]"
proof -
  have a: "confusion_matrix [0, 0, 1, 1] [0, 1, 0, 1] = Inr [[1, 1], [1, 1]]"
    by (simp add: confusion_matrix_def unique_labels_def table_def count_pairs_def)
  have b: "four_cells [[1, 1], [1, 1]] = Inr (1, 1, 1, 1)"
    by (simp add: four_cells_2x2)
  have l: "confusion_matrix_labels [0, 0, 1, 1] [0, 1, 0, 1] [0, 1] = Inr [[1, 1], [1, 1]]"
    by (simp add: confusion_matrix_labels_def table_def count_pairs_def)
  have "(1::nat) + 1 + 1 + 1 = length [0::int, 0, 1, 1]
        \<and> np_sum [[1, 1], [1, 1]] = length [0::int, 0, 1, 1]"
    using cells_sum_total [of "[0, 0, 1, 1]" "[0, 1, 0, 1]"] a b by simp
  with a b l show ?thesis by simp
qed


subsection \<open>Steps of the loops\<close>




subsection \<open>The CSV file\<close>









subsection \<open>Facts about binarization and pooling\<close>




lemma test_body_Inr:
  assumes "test_body hd_medpy asd_medpy save_imgs cfg i s d = Inr s'"
  shows "\<exists>m p. squeeze1 (msk d) = Inr m \<and> bind_err (unwrap (out d)) squeeze1 = Inr p
           \<and> save_imgs i m p = None
           \<and> s' = \<lparr>preds = preds s @ [p], gts = gts s @ [m],
                    loss_list = loss_list s @ [loss d],
                    hd_list = hd_list s @
                      [fst (try_hd_asd hd_medpy asd_medpy (np_where_ge p (threshold cfg))
                              (np_where_ge m (Fin (1 / 2))))],
                    asd_list = asd_list s @
                      [fst (snd (try_hd_asd hd_medpy asd_medpy (np_where_ge p (threshold cfg))
                              (np_where_ge m (Fin (1 / 2)))))],
                    printed = printed s @
                      snd (snd (try_hd_asd hd_medpy asd_medpy (np_where_ge p (threshold cfg))
                              (np_where_ge m (Fin (1 / 2)))))\<rparr>"
  using assms
  by (auto simp: test_body_def bind_err_eq_Inr Let_def case_prod_beta split: option.splits)

subsection \<open>The loop of the test pass\<close>

lemma try_hd_asd_fail:
  "(\<exists>e. hd_medpy bp bg = Inl e) \<or> (\<exists>e. asd_medpy bp bg = Inl e)
      \<Longrightarrow>
     \<exists>e. try_hd_asd hd_medpy asd_medpy bp bg = (NaN, NaN, [Print_hd_asd_error e])"
  by (auto simp: try_hd_asd_def split: sum.splits)

text \<open>
  What a step of the loop appends to the arrays, and whether it raises, does not depend
  on the distance functions nor on the state.
\<close>

lemma test_body_core:
  "\<exists>c. \<forall>hd_medpy asd_medpy s.
     test_body hd_medpy asd_medpy save_imgs cfg i s d =
       (case c of
          Inl e \<Rightarrow> Inl e
        | Inr mp \<Rightarrow>
            Inr \<lparr>preds = preds s @ [snd mp], gts = gts s @ [fst mp],
                 loss_list = loss_list s @ [loss d],
                 hd_list = hd_list s @
                   [fst (try_hd_asd hd_medpy asd_medpy (np_where_ge (snd mp) (threshold cfg))
                           (np_where_ge (fst mp) (Fin (1 / 2))))],
                 asd_list = asd_list s @
                   [fst (snd (try_hd_asd hd_medpy asd_medpy
                           (np_where_ge (snd mp) (threshold cfg))
                           (np_where_ge (fst mp) (Fin (1 / 2)))))],
                 printed = printed s @
                   snd (snd (try_hd_asd hd_medpy asd_medpy
                           (np_where_ge (snd mp) (threshold cfg))
                           (np_where_ge (fst mp) (Fin (1 / 2)))))\<rparr>)"
  by (rule exI [of _ "bind_err (squeeze1 (msk d)) (\<lambda>m.
                      bind_err (bind_err (unwrap (out d)) squeeze1) (\<lambda>y.
                        case save_imgs i m y of Some e \<Rightarrow> Inl e | None \<Rightarrow>
                            Inr (m, y)))"])
     (simp add: test_body_def Let_def bind_err_def case_prod_beta
        split: sum.splits option.splits)

lemma for_enumerate_test_body_core:
  assumes "preds s = preds t" "gts s = gts t" "loss_list s = loss_list t"
  shows "map_sum id (\<lambda>s. (preds s, gts s, loss_list s))
           (for_enumerate (test_body hd_medpy asd_medpy save_imgs cfg) i s items) =
         map_sum id (\<lambda>s. (preds s, gts s, loss_list s))
           (for_enumerate (test_body hd2 asd2 save_imgs cfg) i t items)"
  using assms
proof (induction items arbitrary: i s t)
  case Nil
  then show ?case by simp
next
  case (Cons d ds)
  from test_body_core [of save_imgs cfg i d] obtain c where
    c: "\<forall>hd_medpy asd_medpy s.
     test_body hd_medpy asd_medpy save_imgs cfg i s d =
       (case c of
          Inl e \<Rightarrow> Inl e
        | Inr mp \<Rightarrow>
            Inr \<lparr>preds = preds s @ [snd mp], gts = gts s @ [fst mp],
                 loss_list = loss_list s @ [loss d],
                 hd_list = hd_list s @
                   [fst (try_hd_asd hd_medpy asd_medpy (np_where_ge (snd mp) (threshold cfg))
                           (np_where_ge (fst mp) (Fin (1 / 2))))],
                 asd_list = asd_list s @
                   [fst (snd (try_hd_asd hd_medpy asd_medpy
                           (np_where_ge (snd mp) (threshold cfg))
                           (np_where_ge (fst mp) (Fin (1 / 2)))))],
                 printed = printed s @
                   snd (snd (try_hd_asd hd_medpy asd_medpy
                           (np_where_ge (snd mp) (threshold cfg))
                           (np_where_ge (fst mp) (Fin (1 / 2)))))\<rparr>)" ..
  show ?case
  proof (cases c)
    case (Inl e)
    with c show ?thesis by simp
  next
    case (Inr mp)
    obtain s1 where s1: "test_body hd_medpy asd_medpy save_imgs cfg i s d = Inr s1"
      "preds s1 = preds s @ [snd mp]" "gts s1 = gts s @ [fst mp]"
      "loss_list s1 = loss_list s @ [loss d]"
      using c Inr by simp
    obtain t1 where t1: "test_body hd2 asd2 save_imgs cfg i t d = Inr t1"
      "preds t1 = preds t @ [snd mp]" "gts t1 = gts t @ [fst mp]"
      "loss_list t1 = loss_list t @ [loss d]"
      using c Inr by simp
    have "map_sum id (\<lambda>s. (preds s, gts s, loss_list s))
            (for_enumerate (test_body hd_medpy asd_medpy save_imgs cfg) (Suc i) s1 ds) =
          map_sum id (\<lambda>s. (preds s, gts s, loss_list s))
            (for_enumerate (test_body hd2 asd2 save_imgs cfg) (Suc i) t1 ds)"
      by (rule Cons.IH) (simp_all add: s1 t1 Cons.prems)
    then show ?thesis by (simp add: s1(1) t1(1) id_def)
  qed
qed

lemma test_loop_core:
  "map_sum id (\<lambda>s. (preds s, gts s, loss_list s))
     (test_loop hd_medpy asd_medpy save_imgs cfg items) =
   map_sum id (\<lambda>s. (preds s, gts s, loss_list s)) (test_loop hd2 asd2 save_imgs cfg items)"
  unfolding test_loop_def by (rule for_enumerate_test_body_core) simp_all

lemma test_loop_isl:
  "isl (test_loop hd_medpy asd_medpy save_imgs cfg items) =
   isl (test_loop hd2 asd2 save_imgs cfg items)"
  using arg_cong [OF test_loop_core, of isl hd_medpy asd_medpy save_imgs cfg items hd2 asd2]
  by (simp add: isl_map_sum)

lemma test_one_epoch_core:
  "map_sum id fst (test_one_epoch hd_medpy asd_medpy save_imgs items cfg name) =
   map_sum id fst (test_one_epoch hd2 asd2 save_imgs items cfg name)"
proof (cases "test_loop hd_medpy asd_medpy save_imgs cfg items")
  case (Inl e)
  with test_loop_core [of hd_medpy asd_medpy save_imgs cfg items hd2 asd2]
  have "test_loop hd2 asd2 save_imgs cfg items = Inl e"
    by (cases "test_loop hd2 asd2 save_imgs cfg items") simp_all
  with Inl show ?thesis by (simp add: test_one_epoch_def)
next
  case (Inr s)
  with test_loop_core [of hd_medpy asd_medpy save_imgs cfg items hd2 asd2]
  obtain t where t: "test_loop hd2 asd2 save_imgs cfg items = Inr t"
    "preds t = preds s" "gts t = gts s" "loss_list t = loss_list s"
    by (cases "test_loop hd2 asd2 save_imgs cfg items") simp_all
  show ?thesis
    by (simp add: test_one_epoch_def Inr t Let_def bind_err_def split: sum.splits)
qed

lemma for_enumerate_test_body_Inr:
  "for_enumerate (test_body hd_medpy asd_medpy save_imgs cfg) i s items = Inr s' \<Longrightarrow>
     \<exists>ps ms. length ps = length items \<and> length ms = length items
       \<and> map (\<lambda>d. squeeze1 (msk d)) items = map Inr ms
       \<and> map (\<lambda>d. bind_err (unwrap (out d)) squeeze1) items = map Inr ps
       \<and> preds s' = preds s @ ps \<and> gts s' = gts s @ ms
       \<and> loss_list s' = loss_list s @ map loss items
       \<and> hd_list s' = hd_list s @
           map (\<lambda>(y, m). fst (try_hd_asd hd_medpy asd_medpy (np_where_ge y (threshold cfg))
                               (np_where_ge m (Fin (1 / 2))))) (zip ps ms)
       \<and> asd_list s' = asd_list s @
           map (\<lambda>(y, m). fst (snd (try_hd_asd hd_medpy asd_medpy
                               (np_where_ge y (threshold cfg))
                               (np_where_ge m (Fin (1 / 2)))))) (zip ps ms)
       \<and> printed s' = printed s @
           concat (map (\<lambda>(y, m). snd (snd (try_hd_asd hd_medpy asd_medpy
                               (np_where_ge y (threshold cfg))
                               (np_where_ge m (Fin (1 / 2)))))) (zip ps ms))"
proof (induction items arbitrary: i s)
  case Nil
  then show ?case by simp
next
  case (Cons d ds)
  from Cons.prems obtain s1 where
    step: "test_body hd_medpy asd_medpy save_imgs cfg i s d = Inr s1"
    and rest: "for_enumerate (test_body hd_medpy asd_medpy save_imgs cfg) (Suc i) s1 ds = Inr s'"
    by (auto simp: bind_err_eq_Inr)
  from test_body_Inr [OF step] obtain m y where
    my: "squeeze1 (msk d) = Inr m" "bind_err (unwrap (out d)) squeeze1 = Inr y"
    and s1: "preds s1 = preds s @ [y]" "gts s1 = gts s @ [m]"
      "loss_list s1 = loss_list s @ [loss d]"
      "hd_list s1 = hd_list s @
         [fst (try_hd_asd hd_medpy asd_medpy (np_where_ge y (threshold cfg))
                 (np_where_ge m (Fin (1 / 2))))]"
      "asd_list s1 = asd_list s @
         [fst (snd (try_hd_asd hd_medpy asd_medpy (np_where_ge y (threshold cfg))
                 (np_where_ge m (Fin (1 / 2)))))]"
      "printed s1 = printed s @
         snd (snd (try_hd_asd hd_medpy asd_medpy (np_where_ge y (threshold cfg))
                 (np_where_ge m (Fin (1 / 2)))))"
    by auto
  from Cons.IH [OF rest] obtain ps ms where
    r: "length ps = length ds" "length ms = length ds"
       "map (\<lambda>d. squeeze1 (msk d)) ds = map Inr ms"
       "map (\<lambda>d. bind_err (unwrap (out d)) squeeze1) ds = map Inr ps"
       "preds s' = preds s1 @ ps" "gts s' = gts s1 @ ms"
       "loss_list s' = loss_list s1 @ map loss ds"
       "hd_list s' = hd_list s1 @
           map (\<lambda>(y, m). fst (try_hd_asd hd_medpy asd_medpy (np_where_ge y (threshold cfg))
                               (np_where_ge m (Fin (1 / 2))))) (zip ps ms)"
       "asd_list s' = asd_list s1 @
           map (\<lambda>(y, m). fst (snd (try_hd_asd hd_medpy asd_medpy
                               (np_where_ge y (threshold cfg))
                               (np_where_ge m (Fin (1 / 2)))))) (zip ps ms)"
       "printed s' = printed s1 @
           concat (map (\<lambda>(y, m). snd (snd (try_hd_asd hd_medpy asd_medpy
                               (np_where_ge y (threshold cfg))
                               (np_where_ge m (Fin (1 / 2)))))) (zip ps ms))"
    by blast
  show ?case
    by (rule exI [of _ "y # ps"], rule exI [of _ "m # ms"]) (simp add: my s1 r)
qed

lemma test_loop_Inr:
  assumes "test_loop hd_medpy asd_medpy save_imgs cfg items = Inr s"
  shows "length (preds s) = length items \<and> length (gts s) = length items
       \<and> map (\<lambda>d. squeeze1 (msk d)) items = map Inr (gts s)
       \<and> map (\<lambda>d. bind_err (unwrap (out d)) squeeze1) items = map Inr (preds s)
       \<and> loss_list s = map loss items
       \<and> hd_list s =
           map (\<lambda>(y, m). fst (try_hd_asd hd_medpy asd_medpy (np_where_ge y (threshold cfg))
                               (np_where_ge m (Fin (1 / 2))))) (zip (preds s) (gts s))
       \<and> asd_list s =
           map (\<lambda>(y, m). fst (snd (try_hd_asd hd_medpy asd_medpy
                               (np_where_ge y (threshold cfg))
                               (np_where_ge m (Fin (1 / 2)))))) (zip (preds s) (gts s))
       \<and> printed s =
           concat (map (\<lambda>(y, m). snd (snd (try_hd_asd hd_medpy asd_medpy
                               (np_where_ge y (threshold cfg))
                               (np_where_ge m (Fin (1 / 2)))))) (zip (preds s) (gts s)))"
  using for_enumerate_test_body_Inr [OF assms [unfolded test_loop_def]] by auto

text \<open>
  C3. In the test pass, whenever the Hausdorff or the surface distance raises on the
  binarized pair of an item, both values recorded for the item are not-a-number and a
  diagnostic is printed. Whether the loop, and the whole pass, raises, which exception,
  and the value returned are the same whatever the two distance functions do; and a loop
  that ends has recorded one value of each kind per item.
\<close>

theorem geometry_failure_recovered:
  "((\<exists>e. hd_medpy bp bg = Inl e) \<or> (\<exists>e. asd_medpy bp bg = Inl e)
      \<longrightarrow>
      (\<exists>e. try_hd_asd hd_medpy asd_medpy bp bg = (NaN, NaN, [Print_hd_asd_error e])))
   \<and> isl (test_loop hd_medpy asd_medpy save_imgs cfg items) =
       isl (test_loop hd_other asd_other save_imgs cfg items)
   \<and> map_sum id fst (test_one_epoch hd_medpy asd_medpy save_imgs items cfg name) =
       map_sum id fst (test_one_epoch hd_other asd_other save_imgs items cfg name)
   \<and> (test_loop hd_medpy asd_medpy save_imgs cfg items = Inr s \<longrightarrow>
        length (hd_list s) = length items \<and> length (asd_list s) = length items
        \<and> length (preds s) = length items \<and> length (gts s) = length items
        \<and> (\<forall>i<length items.
              hd_list s ! i =
                fst (try_hd_asd hd_medpy asd_medpy (np_where_ge (preds s ! i) (threshold cfg))
                       (np_where_ge (gts s ! i) (Fin (1 / 2))))
              \<and> asd_list s ! i =
                fst (snd (try_hd_asd hd_medpy asd_medpy
                       (np_where_ge (preds s ! i) (threshold cfg))
                       (np_where_ge (gts s ! i) (Fin (1 / 2)))))
              \<and> set (snd (snd (try_hd_asd hd_medpy asd_medpy
                       (np_where_ge (preds s ! i) (threshold cfg))
                       (np_where_ge (gts s ! i) (Fin (1 / 2)))))) \<subseteq> set (printed s)))"
proof (intro conjI impI allI)
  show "(\<exists>e. hd_medpy bp bg = Inl e) \<or> (\<exists>e. asd_medpy bp bg = Inl e)
      \<Longrightarrow>
          \<exists>e. try_hd_asd hd_medpy asd_medpy bp bg = (NaN, NaN, [Print_hd_asd_error e])"
    by (rule try_hd_asd_fail)
  show "isl (test_loop hd_medpy asd_medpy save_imgs cfg items) =
          isl (test_loop hd_other asd_other save_imgs cfg items)"
    by (rule test_loop_isl)
  show "map_sum id fst (test_one_epoch hd_medpy asd_medpy save_imgs items cfg name) =
          map_sum id fst (test_one_epoch hd_other asd_other save_imgs items cfg name)"
    by (rule test_one_epoch_core)
next
  assume a: "test_loop hd_medpy asd_medpy save_imgs cfg items = Inr s"
  note inv = test_loop_Inr [OF a]
  from inv show lp: "length (preds s) = length items" by blast
  from inv show lg: "length (gts s) = length items" by blast
  from inv have h: "hd_list s =
           map (\<lambda>(y, m). fst (try_hd_asd hd_medpy asd_medpy (np_where_ge y (threshold cfg))
                               (np_where_ge m (Fin (1 / 2))))) (zip (preds s) (gts s))"
    by blast
  from inv have d: "asd_list s =
           map (\<lambda>(y, m). fst (snd (try_hd_asd hd_medpy asd_medpy
                               (np_where_ge y (threshold cfg))
                               (np_where_ge m (Fin (1 / 2)))))) (zip (preds s) (gts s))"
    by blast
  from inv have p: "printed s =
           concat (map (\<lambda>(y, m). snd (snd (try_hd_asd hd_medpy asd_medpy
                               (np_where_ge y (threshold cfg))
                               (np_where_ge m (Fin (1 / 2)))))) (zip (preds s) (gts s)))"
    by blast
  have "length (hd_list s) = length (zip (preds s) (gts s))"
    by (subst h) simp
  then show "length (hd_list s) = length items" by (simp add: lp lg)
  have "length (asd_list s) = length (zip (preds s) (gts s))"
    by (subst d) simp
  then show "length (asd_list s) = length items" by (simp add: lp lg)
  fix i
  assume i: "i < length items"
  then have z: "i < length (zip (preds s) (gts s))" by (simp add: lp lg)
  then have zi: "zip (preds s) (gts s) ! i = (preds s ! i, gts s ! i)" by simp
  show "hd_list s ! i =
          fst (try_hd_asd hd_medpy asd_medpy (np_where_ge (preds s ! i) (threshold cfg))
                 (np_where_ge (gts s ! i) (Fin (1 / 2))))"
    by (subst h) (simp add: z zi del: length_zip nth_zip)
  show "asd_list s ! i =
          fst (snd (try_hd_asd hd_medpy asd_medpy (np_where_ge (preds s ! i) (threshold cfg))
                 (np_where_ge (gts s ! i) (Fin (1 / 2)))))"
    by (subst d) (simp add: z zi del: length_zip nth_zip)
  have "(preds s ! i, gts s ! i) \<in> set (zip (preds s) (gts s))"
    using nth_mem [OF z] zi by simp
  then show "set (snd (snd (try_hd_asd hd_medpy asd_medpy
                 (np_where_ge (preds s ! i) (threshold cfg))
                 (np_where_ge (gts s ! i) (Fin (1 / 2)))))) \<subseteq> set (printed s)"
    by (subst p) force
qed

theorem geometry_failure_recovered_witness:
  "test_loop (\<lambda>a b. Inl ''empty'') (\<lambda>a b. Inr (Fin 1)) (\<lambda>i m y. None)
       \<lparr>threshold = Fin (1 / 2), val_interval = 1\<rparr>
       [\<lparr>msk = \<lparr>shape = [1, 1, 1, 2], flat = [Fin 0, Fin 1]\<rparr>,
         out = Single \<lparr>shape = [1, 1, 1, 2], flat = [Fin (1 / 10), Fin (9 / 10)]\<rparr>,
         loss = Fin (3 / 10), file_name = [''a.tif'']\<rparr>] =
     Inr \<lparr>preds = [\<lparr>shape = [1, 1, 2], flat = [Fin (1 / 10), Fin (9 / 10)]\<rparr>],
          gts = [\<lparr>shape = [1, 1, 2], flat = [Fin 0, Fin 1]\<rparr>],
          loss_list = [Fin (3 / 10)], hd_list = [NaN], asd_list = [NaN],
          printed = [Print_hd_asd_error ''empty'']\<rparr>
   \<and> [NaN] ! 0 =
       fst (try_hd_asd (\<lambda>a b. Inl ''empty'') (\<lambda>a b. Inr (Fin 1))
              (np_where_ge \<lparr>shape = [1, 1, 2], flat = [Fin (1 / 10), Fin (9 /
                  10)]\<rparr> (Fin (1 / 2)))
              (np_where_ge \<lparr>shape = [1, 1, 2], flat = [Fin 0, Fin 1]\<rparr> (Fin (1 / 2))))
   \<and> map_sum id fst
       (test_one_epoch (\<lambda>a b. Inl ''empty'') (\<lambda>a b. Inr (Fin 1)) (\<lambda>i m
           y. None)
          [\<lparr>msk = \<lparr>shape = [1, 1, 1, 2], flat = [Fin 0, Fin 1]\<rparr>,
            out = Single \<lparr>shape = [1, 1, 1, 2], flat = [Fin (1 / 10), Fin (9 / 10)]\<rparr>,
            loss = Fin (3 / 10), file_name = [''a.tif'']\<rparr>]
          \<lparr>threshold = Fin (1 / 2), val_interval = 1\<rparr> None) = Inr (Fin (3 / 10))"
proof -
  have h: "test_loop (\<lambda>a b. Inl ''empty'') (\<lambda>a b. Inr (Fin 1)) (\<lambda>i m y.
      None)
       \<lparr>threshold = Fin (1 / 2), val_interval = 1\<rparr>
       [\<lparr>msk = \<lparr>shape = [1, 1, 1, 2], flat = [Fin 0, Fin 1]\<rparr>,
         out = Single \<lparr>shape = [1, 1, 1, 2], flat = [Fin (1 / 10), Fin (9 / 10)]\<rparr>,
         loss = Fin (3 / 10), file_name = [''a.tif'']\<rparr>] =
     Inr \<lparr>preds = [\<lparr>shape = [1, 1, 2], flat = [Fin (1 / 10), Fin (9 / 10)]\<rparr>],
          gts = [\<lparr>shape = [1, 1, 2], flat = [Fin 0, Fin 1]\<rparr>],
          loss_list = [Fin (3 / 10)], hd_list = [NaN], asd_list = [NaN],
          printed = [Print_hd_asd_error ''empty'']\<rparr>"
    by (simp add: test_loop_def test_body_def try_hd_asd_def squeeze1_def unwrap_def
        np_where_ge_def where_ge_def Let_def)
  have e: "map_sum id fst
       (test_one_epoch (\<lambda>a b. Inr (Fin 0)) (\<lambda>a b. Inr (Fin 0)) (\<lambda>i m y.
           None)
          [\<lparr>msk = \<lparr>shape = [1, 1, 1, 2], flat = [Fin 0, Fin 1]\<rparr>,
            out = Single \<lparr>shape = [1, 1, 1, 2], flat = [Fin (1 / 10), Fin (9 / 10)]\<rparr>,
            loss = Fin (3 / 10), file_name = [''a.tif'']\<rparr>]
          \<lparr>threshold = Fin (1 / 2), val_interval = 1\<rparr> None) = Inr (Fin (3 / 10))"
    by (simp add: test_one_epoch_def test_loop_def test_body_def try_hd_asd_def squeeze1_def
        unwrap_def np_where_ge_def where_ge_def pooled_confusion_def pool_def
        confusion_matrix_def unique_labels_def table_def count_pairs_def four_cells_def
        cell_def statistics_def ratio_or_zero_def truediv_def np_sum_def np_mean_def
        np_nanmean_def Let_def)
  from h e show ?thesis
    using geometry_failure_recovered [where hd_medpy = "\<lambda>a b. Inl ''empty''"
        and asd_medpy = "\<lambda>a b. Inr (Fin 1)" and save_imgs = "\<lambda>i m y. None"
        and hd_other = "\<lambda>a b. Inr (Fin 0)" and asd_other = "\<lambda>a b. Inr (Fin 0)"
        and cfg = "\<lparr>threshold = Fin (1 / 2), val_interval = 1\<rparr>"
        and name = None
        and items = "[\<lparr>msk = \<lparr>shape = [1, 1, 1, 2], flat = [Fin 0, Fin 1]\<rparr>,
            out = Single \<lparr>shape = [1, 1, 1, 2], flat = [Fin (1 / 10), Fin (9 / 10)]\<rparr>,
            loss = Fin (3 / 10), file_name = [''a.tif'']\<rparr>]"
        and s = "\<lparr>preds = [\<lparr>shape = [1, 1, 2], flat = [Fin (1 / 10), Fin (9 /
            10)]\<rparr>],
          gts = [\<lparr>shape = [1, 1, 2], flat = [Fin 0, Fin 1]\<rparr>],
          loss_list = [Fin (3 / 10)], hd_list = [NaN], asd_list = [NaN],
          printed = [Print_hd_asd_error ''empty'']\<rparr>"]
    by simp
qed


subsection \<open>The arrays a pass collects\<close>












subsection \<open>What a pass logs\<close>







subsection \<open>Binarization in the passes\<close>




subsection \<open>Aggregation over a pass\<close>




end
